theory Spec2Isabelle
  imports Complex_Main
begin

section \<open>Numbers, vectors and matrices\<close>

text \<open>
  The tracker computes with C++ \<^verbatim>\<open>float\<close> and \<^verbatim>\<open>double\<close>. Here a number is a value of a
  type \<open>'a\<close> with the operations \<open>+\<close>, \<open>-\<close>, \<open>*\<close>, \<open>/\<close>, \<open>abs\<close>, \<open><\<close>, \<open>\<le>\<close> and the
  constants 0 and 1, of which nothing is assumed: every operation of the source is one
  operation of the type, in the order of the source, and no test is added to a division.
  What is proved for every such type holds for the arithmetic of the machine, with its
  rounding, its infinities and its NaN. The two precisions are one type; a conversion
  between them is not written.

  Two types are used where a statement needs numbers: the real numbers, and the type
  \<open>ieee\<close> below, the real numbers with NaN and the two infinities. Both compute exactly;
  on the concrete inputs of this file, small integers and halves, the machine does too.
\<close>

type_synonym 'a vec3 = "'a \<times> 'a \<times> 'a"
type_synonym 'a mat3 = "'a vec3 \<times> 'a vec3 \<times> 'a vec3"
type_synonym 'a quat = "'a \<times> 'a \<times> 'a \<times> 'a"

text \<open>
  The literals 2, 100 and \<^verbatim>\<open>1e-5\<close>, from 1 by sums and products of small integers and one
  quotient.
\<close>

definition two :: "'a::{zero,one,plus,minus,uminus,times,inverse,abs,ord}" where
  "two = 1 + 1"

definition ten :: "'a::{zero,one,plus,minus,uminus,times,inverse,abs,ord}" where
  "ten = two * (two * two + 1)"

definition hundred :: "'a::{zero,one,plus,minus,uminus,times,inverse,abs,ord}" where
  "hundred = ten * ten"

definition dummy_precision :: "'a::{zero,one,plus,minus,uminus,times,inverse,abs,ord}" where
  "dummy_precision = 1 / (ten * ten * ten * ten * ten)"

text \<open>\<^verbatim>\<open>std::max(a, b)\<close> is \<^verbatim>\<open>(a < b) ? b : a\<close>.\<close>

definition std_max :: "'a::{zero,one,plus,minus,uminus,times,inverse,abs,ord} \<Rightarrow> 'a \<Rightarrow> 'a" where
  "std_max a b = (if a < b then b else a)"

fun vadd :: "('a::{zero,one,plus,minus,uminus,times,inverse,abs,ord}) vec3 \<Rightarrow> 'a vec3 \<Rightarrow> 'a vec3" where
  "vadd (a, b, c) (d, e, f) = (a + d, b + e, c + f)"

fun vsub :: "('a::{zero,one,plus,minus,uminus,times,inverse,abs,ord}) vec3 \<Rightarrow> 'a vec3 \<Rightarrow> 'a vec3" where
  "vsub (a, b, c) (d, e, f) = (a - d, b - e, c - f)"

text \<open>A vector times a scalar, \<^verbatim>\<open>v * s\<close>.\<close>

fun vtimes :: "('a::{zero,one,plus,minus,uminus,times,inverse,abs,ord}) vec3 \<Rightarrow> 'a \<Rightarrow> 'a vec3" where
  "vtimes (a, b, c) k = (a * k, b * k, c * k)"

fun dot :: "('a::{zero,one,plus,minus,uminus,times,inverse,abs,ord}) vec3 \<Rightarrow> 'a vec3 \<Rightarrow> 'a" where
  "dot (a, b, c) (d, e, f) = a * d + b * e + c * f"

text \<open>
  \<^verbatim>\<open>v.length()\<close> is the square root of the dot product, and \<^verbatim>\<open>v.normalized()\<close> is
  \<^verbatim>\<open>v * (1 / v.length())\<close>. The square root is an argument: it is not an operation of the
  type.
\<close>

definition vlength :: "('a::{zero,one,plus,minus,uminus,times,inverse,abs,ord} \<Rightarrow> 'a) \<Rightarrow> 'a vec3 \<Rightarrow> 'a" where
  "vlength sq v = sq (dot v v)"

definition normalized :: "('a::{zero,one,plus,minus,uminus,times,inverse,abs,ord} \<Rightarrow> 'a) \<Rightarrow> 'a vec3 \<Rightarrow> 'a vec3" where
  "normalized sq v = vtimes v (1 / vlength sq v)"

fun madd :: "('a::{zero,one,plus,minus,uminus,times,inverse,abs,ord}) mat3 \<Rightarrow> 'a mat3 \<Rightarrow> 'a mat3" where
  "madd (r0, r1, r2) (s0, s1, s2) = (vadd r0 s0, vadd r1 s1, vadd r2 s2)"

fun mtranspose :: "'a mat3 \<Rightarrow> 'a mat3" where
  "mtranspose ((a, b, c), (d, e, f), (g, h, i)) = ((a, d, g), (b, e, h), (c, f, i))"

fun mat_vec :: "('a::{zero,one,plus,minus,uminus,times,inverse,abs,ord}) mat3 \<Rightarrow> 'a vec3 \<Rightarrow> 'a vec3" where
  "mat_vec (r0, r1, r2) v = (dot r0 v, dot r1 v, dot r2 v)"

text \<open>A row vector times a matrix, as in \<^verbatim>\<open>diff.transpose() * M\<close>.\<close>

definition vec_mat :: "('a::{zero,one,plus,minus,uminus,times,inverse,abs,ord}) vec3 \<Rightarrow> 'a mat3 \<Rightarrow> 'a vec3" where
  "vec_mat v m = (case mtranspose m of (c0, c1, c2) \<Rightarrow> (dot v c0, dot v c1, dot v c2))"

fun mmul :: "('a::{zero,one,plus,minus,uminus,times,inverse,abs,ord}) mat3 \<Rightarrow> 'a mat3 \<Rightarrow> 'a mat3" where
  "mmul (r0, r1, r2) m = (vec_mat r0 m, vec_mat r1 m, vec_mat r2 m)"

text \<open>
  Eigen inverts a fixed-size 3x3 matrix by cofactors. The determinant is the sum of the
  products of the first column with its cofactors, and every cofactor is multiplied by
  \<^verbatim>\<open>1 / det\<close>, with no test of the determinant.
\<close>

fun det3 :: "('a::{zero,one,plus,minus,uminus,times,inverse,abs,ord}) mat3 \<Rightarrow> 'a" where
  "det3 ((a, b, c), (d, e, f), (g, h, i)) =
     (e * i - f * h) * a + (h * c - i * b) * d + (b * f - c * e) * g"

fun inverse3 :: "('a::{zero,one,plus,minus,uminus,times,inverse,abs,ord}) mat3 \<Rightarrow> 'a mat3" where
  "inverse3 ((a, b, c), (d, e, f), (g, h, i)) =
     (let invdet = 1 / det3 ((a, b, c), (d, e, f), (g, h, i)) in
      (((e * i - f * h) * invdet, (h * c - i * b) * invdet, (b * f - c * e) * invdet),
       ((f * g - d * i) * invdet, (i * a - g * c) * invdet, (c * d - a * f) * invdet),
       ((d * h - e * g) * invdet, (g * b - h * a) * invdet, (a * e - b * d) * invdet)))"

text \<open>
  Eigen's \<^verbatim>\<open>isZero()\<close> compares every coefficient with the default precision of the scalar
  type, \<^verbatim>\<open>1e-5\<close> for \<^verbatim>\<open>float\<close>: \<^verbatim>\<open>abs(x) <= abs(1) * prec\<close>.
\<close>

definition much_smaller :: "'a::{zero,one,plus,minus,uminus,times,inverse,abs,ord} \<Rightarrow> bool" where
  "much_smaller x = (\<bar>x\<bar> \<le> \<bar>1\<bar> * dummy_precision)"

fun isZero :: "('a::{zero,one,plus,minus,uminus,times,inverse,abs,ord}) mat3 \<Rightarrow> bool" where
  "isZero ((a, b, c), (d, e, f), (g, h, i)) =
     (much_smaller a \<and> much_smaller b \<and> much_smaller c \<and>
      much_smaller d \<and> much_smaller e \<and> much_smaller f \<and>
      much_smaller g \<and> much_smaller h \<and> much_smaller i)"

text \<open>\<^verbatim>\<open>Eigen::Quaternionf(w, x, y, z).matrix()\<close>; a quaternion is kept as \<open>(x, y, z, w)\<close>.\<close>

fun quat_matrix :: "('a::{zero,one,plus,minus,uminus,times,inverse,abs,ord}) quat \<Rightarrow> 'a mat3" where
  "quat_matrix (x, y, z, w) =
     ((1 - (two * y * y + two * z * z), two * y * x - two * z * w, two * z * x + two * y * w),
      (two * y * x + two * z * w, 1 - (two * x * x + two * z * z), two * z * y - two * x * w),
      (two * z * x - two * y * w, two * z * y + two * x * w, 1 - (two * x * x + two * y * y)))"

text \<open>\<^verbatim>\<open>R * covariance * R.transpose()\<close>.\<close>

definition rotate_covariance :: "('a::{zero,one,plus,minus,uminus,times,inverse,abs,ord}) mat3 \<Rightarrow> 'a mat3 \<Rightarrow> 'a mat3" where
  "rotate_covariance r c = mmul (mmul r c) (mtranspose r)"

text \<open>
  The upper left 3x3 block of the 6x6 covariance of a message. The message holds 36
  numbers; the source copies them by linear index into an Eigen matrix, which is stored
  column by column, so that the coefficient of row \<open>r\<close> and column \<open>c\<close> is number
  \<open>6 * c + r\<close>.
\<close>

definition block3 :: "(nat \<Rightarrow> 'a) \<Rightarrow> 'a mat3" where
  "block3 cov = ((cov 0, cov 6, cov 12), (cov 1, cov 7, cov 13), (cov 2, cov 8, cov 14))"

section \<open>Messages and tracked objects\<close>

record header =
  stamp :: nat
  frame_id :: string

record 'a pose =
  position :: "'a vec3"
  orientation :: "'a quat"

text \<open>
  \<^verbatim>\<open>worldmodel_msgs::PosePercept\<close>: the header, the fields of \<^verbatim>\<open>info\<close> that the tracker
  reads, the pose and the 36 numbers of its covariance.
\<close>

record 'a pose_percept =
  percept_header :: header
  class_id :: string
  class_support :: 'a
  object_id :: string
  object_support :: 'a
  percept_pose :: "'a pose"
  percept_covariance :: "nat \<Rightarrow> 'a"

text \<open>
  \<^verbatim>\<open>worldmodel_msgs::ImagePercept\<close>: a region of an image with the calibration of its
  camera.
\<close>

record ('a, 'ci) image_percept =
  image_header :: header
  image_class_id :: string
  image_class_support :: 'a
  image_object_id :: string
  image_object_support :: 'a
  camera_info :: 'ci
  roi_x :: 'a
  roi_y :: 'a
  roi_width :: 'a
  roi_height :: 'a

text \<open>
  A tracked object, with the fields that the tracker reads and writes through the
  accessors of \<^verbatim>\<open>Object\<close>. The state is a signed number; a negative state is a fixed
  state.
\<close>

record 'a object =
  obj_header :: header
  obj_class_id :: string
  obj_object_id :: string
  obj_support :: 'a
  obj_position :: "'a vec3"
  obj_orientation :: "'a quat"
  obj_covariance :: "'a mat3"
  obj_state :: int

text \<open>\<^verbatim>\<open>worldmodel_msgs::Object\<close> as a request of \<^verbatim>\<open>add_object\<close> carries it.\<close>

record 'a object_msg =
  msg_header :: header
  msg_class_id :: string
  msg_object_id :: string
  msg_support :: 'a
  msg_pose :: "'a pose"
  msg_covariance :: "nat \<Rightarrow> 'a"
  msg_state :: int

text \<open>
  A rigid transform as tf keeps it, a rotation matrix and an origin, with the quaternion
  that \<^verbatim>\<open>getRotation()\<close> reports for the matrix.
\<close>

record 'a transform =
  basis :: "'a mat3"
  origin :: "'a vec3"
  rotation :: "'a quat"

datatype verify_response = UNKNOWN | CONFIRM | DISCARD

text \<open>What the tracker publishes: one object on \<^verbatim>\<open>object\<close>, the whole model on \<^verbatim>\<open>objects\<close>.\<close>

datatype 'a event = ObjectUpdate "'a object" | ModelSnapshot "'a object list"

text \<open>The error of the store when an identifier is added twice.\<close>

datatype failure = AlreadyExists

section \<open>Parameters and collaborators\<close>

text \<open>The parameters read by the constructor of \<^verbatim>\<open>ObjectTracker\<close>.\<close>

record 'a config =
  project_objects :: bool
  tracker_frame_id :: string
  default_distance :: 'a
  distance_variance :: 'a
  angle_variance :: 'a
  min_height :: 'a
  max_height :: 'a

text \<open>
  What a callback takes from outside the sources, as inputs of one invocation:
  \<^item> \<open>getDistanceToObstacle\<close>: the ranging service called with a header and a point;
    \<open>None\<close> when the call fails, else the distance of the response;
  \<^item> \<open>distanceToObstacle_exists\<close>: whether the ranging service is there;
  \<^item> \<open>lookupTransform target source stamp\<close>: the transform of tf, \<open>None\<close> when tf
    raises an exception;
  \<^item> \<open>uninitialised_transform\<close>: what a \<^verbatim>\<open>tf::StampedTransform\<close> holds when nothing was
    assigned to it (its constructor initialises nothing);
  \<^item> \<open>verificationServices\<close>: the verification services in the order of the parameter,
    each from the request to its response, \<open>None\<close> when the call fails;
  \<^item> \<open>now\<close>: the clock;
  \<^item> \<open>fsqrt\<close>: the square root of the arithmetic;
  \<^item> \<open>euler yaw pitch roll\<close>: the quaternion that tf builds from three angles;
  \<^item> \<open>getRotation t q\<close>: the quaternion that a \<^verbatim>\<open>tf::Pose\<close> made from the orientation
    \<open>q\<close> of a message reports, after the multiplication by the transform \<open>t\<close> when
    there is one (tf keeps a rotation as a matrix and extracts the quaternion again);
  \<^item> \<open>auto_id\<close>, \<open>initial_state\<close> and \<open>DISCARDED\<close>: the identifier given to a new object
    of a class that comes with none, the state of a new object, and the constant of
    \<^verbatim>\<open>worldmodel_msgs::ObjectState\<close>; the sources contain none of the three.
\<close>

record 'a world =
  getDistanceToObstacle :: "header \<Rightarrow> 'a vec3 \<Rightarrow> 'a option"
  distanceToObstacle_exists :: bool
  lookupTransform :: "string \<Rightarrow> string \<Rightarrow> nat \<Rightarrow> 'a transform option"
  uninitialised_transform :: "'a transform"
  verificationServices :: "('a object \<Rightarrow> verify_response option) list"
  now :: nat
  fsqrt :: "'a \<Rightarrow> 'a"
  euler :: "'a \<Rightarrow> 'a \<Rightarrow> 'a \<Rightarrow> 'a quat"
  getRotation :: "'a transform option \<Rightarrow> 'a quat \<Rightarrow> 'a quat"
  auto_id :: "string \<Rightarrow> string"
  initial_state :: int
  DISCARDED :: int

text \<open>
  The camera model of image\_geometry: built from the calibration, it turns a pixel into
  a ray.
\<close>

record ('a, 'ci, 'cm) image_geometry =
  fromCameraInfo :: "'ci \<Rightarrow> 'cm"
  projectPixelTo3dRay :: "'cm \<Rightarrow> 'a \<times> 'a \<Rightarrow> 'a vec3"

section \<open>The object model\<close>

text \<open>
  Modelled from the spec: the class \<^verbatim>\<open>Object\<close> and the store \<^verbatim>\<open>ObjectModel\<close> (Object.h and
  ObjectModel.h are not among the sources). The store is an insertion-ordered collection;
  a pointer to an object of the store is its index. The constructor of an object takes a
  class and an identifier and assigns an identifier when it is given none.
\<close>

definition new_Object :: "('a::{zero,one,plus,minus,uminus,times,inverse,abs,ord}) world \<Rightarrow> string \<Rightarrow> string \<Rightarrow> 'a object" where
  "new_Object w cid oid =
     \<lparr>obj_header = \<lparr>stamp = 0, frame_id = []\<rparr>,
      obj_class_id = cid,
      obj_object_id = (if oid = [] then auto_id w cid else oid),
      obj_support = 0,
      obj_position = (0, 0, 0),
      obj_orientation = (0, 0, 0, 1),
      obj_covariance = ((0, 0, 0), (0, 0, 0), (0, 0, 0)),
      obj_state = initial_state w\<rparr>"

text \<open>
  Modelled from the spec: \<^verbatim>\<open>ObjectModel::getObject\<close>, the lookup by identifier, here the
  index of the first object with the identifier.
\<close>

fun getObject :: "'a object list \<Rightarrow> string \<Rightarrow> nat option" where
  "getObject [] oid = None"
| "getObject (x # xs) oid =
     (if obj_object_id x = oid then Some 0 else map_option Suc (getObject xs oid))"

text \<open>
  Modelled from the spec: \<^verbatim>\<open>ObjectModel::add(class_id, object_id)\<close>, which "auto-assigns an
  id if none given; errors if the given id already exists". It returns the store and the
  index of the new object.
\<close>

definition add :: "('a::{zero,one,plus,minus,uminus,times,inverse,abs,ord}) world \<Rightarrow> 'a object list \<Rightarrow> string \<Rightarrow> string
    \<Rightarrow> failure + 'a object list \<times> nat" where
  "add w model cid oid =
     (if oid \<noteq> [] \<and> getObject model oid \<noteq> None then Inl AlreadyExists
      else Inr (model @ [new_Object w cid oid], length model))"

text \<open>Modelled from the spec: \<^verbatim>\<open>ObjectModel::add(object)\<close>, which inserts a pre-built object.\<close>

definition add_object :: "'a object list \<Rightarrow> 'a object \<Rightarrow> 'a object list" where
  "add_object model x = model @ [x]"


text \<open>
  Modelled from the spec: \<^verbatim>\<open>Object::update(position, covariance, support)\<close>, the fusion of
  an observation into an object, as the information-form rule that the spec names: the
  inverses of the two covariances add up to the inverse of the fused covariance, the
  fused position is the average of the two positions weighted by these inverses, and the
  support of the observation is added.
\<close>

definition update :: "('a::{zero,one,plus,minus,uminus,times,inverse,abs,ord}) vec3 \<Rightarrow> 'a mat3 \<Rightarrow> 'a \<Rightarrow> 'a object \<Rightarrow> 'a object" where
  "update position' covariance' support' x =
     (let A = inverse3 (obj_covariance x);
          B = inverse3 covariance';
          C = inverse3 (madd A B)
      in x\<lparr>obj_covariance := C,
            obj_position := mat_vec C (vadd (mat_vec A (obj_position x)) (mat_vec B position')),
            obj_support := obj_support x + support'\<rparr>)"

text \<open>Modelled from the spec: \<^verbatim>\<open>Object::addSupport\<close>; support accumulates additively.\<close>

definition addSupport :: "'a::{zero,one,plus,minus,uminus,times,inverse,abs,ord} \<Rightarrow> 'a object \<Rightarrow> 'a object" where
  "addSupport support' x = x\<lparr>obj_support := obj_support x + support'\<rparr>"

text \<open>
  Modelled from the spec: \<^verbatim>\<open>Object::setPose\<close> with a pose and its covariance, a hard set of
  position, orientation and positional covariance.
\<close>

definition setPose :: "'a pose \<Rightarrow> (nat \<Rightarrow> 'a) \<Rightarrow> 'a object \<Rightarrow> 'a object" where
  "setPose p cov x =
     x\<lparr>obj_position := position p, obj_orientation := orientation p, obj_covariance := block3 cov\<rparr>"

text \<open>A change of the object behind a pointer.\<close>

definition modify :: "nat \<Rightarrow> ('a object \<Rightarrow> 'a object) \<Rightarrow> 'a object list \<Rightarrow> 'a object list" where
  "modify i f model = model[i := f (model ! i)]"

section \<open>Pose percepts\<close>

subsection \<open>From the percept to an observation in the global frame\<close>

text \<open>
  The direction of the percept: \<^verbatim>\<open>tf::Quaternion direction(y / x, - z / x, 0.0)\<close>, two
  divisions by the forward component of the position.
\<close>

definition percept_direction :: "('a::{zero,one,plus,minus,uminus,times,inverse,abs,ord}) world \<Rightarrow> 'a vec3 \<Rightarrow> 'a quat" where
  "percept_direction w p = (case p of (px, py, pz) \<Rightarrow> euler w (py / px) (- pz / px) 0)"

text \<open>
  With \<^verbatim>\<open>_project_objects\<close>, the percept is moved to the distance of the next obstacle; the
  percept is ignored (\<open>None\<close>) when the service fails or gives no positive distance. The
  result is the position and the distance.
\<close>

definition project_to_obstacle ::
    "('a::{zero,one,plus,minus,uminus,times,inverse,abs,ord}) config \<Rightarrow> 'a world \<Rightarrow> header \<Rightarrow> 'a vec3 \<Rightarrow> ('a vec3 \<times> 'a) option" where
  "project_to_obstacle cfg w h p =
     (if project_objects cfg then
        (case getDistanceToObstacle w h p of
           None \<Rightarrow> None
         | Some response_distance \<Rightarrow>
             if 0 < response_distance then
               (let distance = std_max response_distance 0
                in Some (vtimes (normalized (fsqrt w) p) distance, distance))
             else None)
      else Some (p, vlength (fsqrt w) p))"

text \<open>
  "If no variance is given, set variance to default": the three diagonal coefficients are
  assigned, the others stay as they are.
\<close>

definition default_covariance :: "('a::{zero,one,plus,minus,uminus,times,inverse,abs,ord}) config \<Rightarrow> 'a \<Rightarrow> 'a mat3 \<Rightarrow> 'a mat3" where
  "default_covariance cfg distance covariance =
     (if isZero covariance then
        (case covariance of ((a, b, c), (d, e, f), (g, h, i)) \<Rightarrow>
           ((distance_variance cfg, b, c),
            (d, std_max (distance * distance) 1 * angle_variance cfg, f),
            (g, h, std_max (distance * distance) 1 * angle_variance cfg)))
      else covariance)"

text \<open>
  The projection to the global frame. No transform is looked up when \<^verbatim>\<open>_frame_id\<close> is
  empty or is the frame of the percept; the transform of the height check is then the
  one that nothing was assigned to. \<open>None\<close> is the return after an exception of tf. The
  result is the position, the covariance, the transform of the height check and the
  transform that was applied, if any.
\<close>

definition to_global_frame ::
    "('a::{zero,one,plus,minus,uminus,times,inverse,abs,ord}) config \<Rightarrow> 'a world \<Rightarrow> header \<Rightarrow> 'a vec3 \<Rightarrow> 'a mat3
      \<Rightarrow> ('a vec3 \<times> 'a mat3 \<times> 'a transform \<times> 'a transform option) option" where
  "to_global_frame cfg w h p covariance =
     (if tracker_frame_id cfg \<noteq> [] \<and> frame_id h \<noteq> tracker_frame_id cfg then
        (case lookupTransform w (tracker_frame_id cfg) (frame_id h) (stamp h) of
           None \<Rightarrow> None
         | Some cameraTransform \<Rightarrow>
             Some (vadd (mat_vec (basis cameraTransform) p) (origin cameraTransform),
                   rotate_covariance (quat_matrix (rotation cameraTransform)) covariance,
                   cameraTransform, Some cameraTransform))
      else Some (p, covariance, uninitialised_transform w, None))"

text \<open>The support of the observation; a percept with support zero is ignored.\<close>

definition percept_support :: "('a::{zero,one,plus,minus,uminus,times,inverse,abs,ord}) pose_percept \<Rightarrow> 'a" where
  "percept_support percept =
     (if object_id percept \<noteq> [] then object_support percept
      else if class_id percept \<noteq> [] then class_support percept
      else 0)"

text \<open>What the first half of \<^verbatim>\<open>posePerceptCb\<close> hands to the second.\<close>

record 'a observation =
  obs_position :: "'a vec3"
  obs_covariance :: "'a mat3"
  obs_support :: 'a
  obs_orientation :: "'a quat"

text \<open>
  The first half of \<^verbatim>\<open>posePerceptCb\<close>, up to the lock of the model. \<open>None\<close> is a return
  that leaves the model alone.
\<close>

definition project_percept ::
    "('a::{zero,one,plus,minus,uminus,times,inverse,abs,ord}) config \<Rightarrow> 'a world \<Rightarrow> 'a pose_percept \<Rightarrow> 'a observation option" where
  "project_percept cfg w percept =
     (let direction = percept_direction w (position (percept_pose percept)) in
      case project_to_obstacle cfg w (percept_header percept) (position (percept_pose percept)) of
        None \<Rightarrow> None
      | Some (p, distance) \<Rightarrow>
     (case to_global_frame cfg w (percept_header percept) p
             (rotate_covariance (quat_matrix direction)
                (default_covariance cfg distance (block3 (percept_covariance percept)))) of
        None \<Rightarrow> None
      | Some (p', covariance, cameraTransform, applied) \<Rightarrow>
          (let relative_height = snd (snd p') - snd (snd (origin cameraTransform)) in
           if relative_height < min_height cfg \<or> max_height cfg < relative_height then None
           else if percept_support percept = 0 then None
           else Some \<lparr>obs_position = p', obs_covariance = covariance,
                       obs_support = percept_support percept,
                       obs_orientation =
                         getRotation w applied (orientation (percept_pose percept))\<rparr>)))"

subsection \<open>Association\<close>

text \<open>
  The squared distance of the scan:
  \<^verbatim>\<open>diff.transpose() * (x->getCovariance() + covariance).inverse() * diff\<close>.
\<close>

definition mahalanobis :: "('a::{zero,one,plus,minus,uminus,times,inverse,abs,ord}) object \<Rightarrow> 'a vec3 \<Rightarrow> 'a mat3 \<Rightarrow> 'a" where
  "mahalanobis x position' covariance' =
     (let diff = vsub (obj_position x) position'
      in dot (vec_mat diff (inverse3 (madd (obj_covariance x) covariance'))) diff)"

text \<open>
  The loop over the model. The fourth argument counts the objects passed, so that it is
  the index of the object at hand; the pair is the pointer \<^verbatim>\<open>object\<close> and \<^verbatim>\<open>min_distance\<close>.
\<close>

fun scan :: "string \<Rightarrow> ('a::{zero,one,plus,minus,uminus,times,inverse,abs,ord}) vec3 \<Rightarrow> 'a mat3 \<Rightarrow> nat \<Rightarrow> 'a object list \<Rightarrow> nat option \<times> 'a
    \<Rightarrow> nat option \<times> 'a" where
  "scan cid position' covariance' k [] acc = acc"
| "scan cid position' covariance' k (x # xs) (object, min_distance) =
     (if cid \<noteq> [] \<and> cid \<noteq> obj_class_id x
      then scan cid position' covariance' (Suc k) xs (object, min_distance)
      else
        (let distance = mahalanobis x position' covariance' in
         if distance < min_distance
         then scan cid position' covariance' (Suc k) xs (Some k, distance)
         else scan cid position' covariance' (Suc k) xs (object, min_distance)))"

text \<open>"Find correspondence": the scan runs only for a percept without object identifier.\<close>

definition find_correspondence ::
    "('a::{zero,one,plus,minus,uminus,times,inverse,abs,ord}) object list \<Rightarrow> 'a pose_percept \<Rightarrow> 'a observation \<Rightarrow> nat option" where
  "find_correspondence model percept obs =
     (if object_id percept = [] then
        fst (scan (class_id percept) (obs_position obs) (obs_covariance obs) 0 model (None, 1))
      else None)"

subsection \<open>Creation, fusion, decay\<close>

text \<open>The three branches after the guard; the result is the model and the pointer.\<close>

definition create_or_update ::
    "('a::{zero,one,plus,minus,uminus,times,inverse,abs,ord}) world \<Rightarrow> 'a object list \<Rightarrow> 'a pose_percept \<Rightarrow> 'a observation \<Rightarrow> nat option
      \<Rightarrow> failure + 'a object list \<times> nat" where
  "create_or_update w model percept obs object =
     (case object of
        None \<Rightarrow>
          (case add w model (class_id percept) (object_id percept) of
             Inl e \<Rightarrow> Inl e
           | Inr (model', i) \<Rightarrow>
               Inr (modify i (\<lambda>x. x\<lparr>obj_position := obs_position obs,
                                      obj_covariance := obs_covariance obs,
                                      obj_support := obs_support obs\<rparr>) model', i))
      | Some i \<Rightarrow>
          if 0 < obs_support obs then
            Inr (modify i (update (obs_position obs) (obs_covariance obs) (obs_support obs)) model, i)
          else Inr (modify i (addSupport (obs_support obs)) model, i))"

text \<open>
  The verification services are called one after the other with the same request, the
  object as it was before the first call.
\<close>

fun verification :: "('a::{zero,one,plus,minus,uminus,times,inverse,abs,ord}) world \<Rightarrow> 'a object \<Rightarrow> ('a object \<Rightarrow> verify_response option) list
    \<Rightarrow> 'a object \<Rightarrow> 'a object" where
  "verification w request [] x = x"
| "verification w request (it # its) x =
     verification w request its
       (case it request of
          None \<Rightarrow> x
        | Some DISCARD \<Rightarrow> x\<lparr>obj_state := DISCARDED w\<rparr>
        | Some CONFIRM \<Rightarrow> addSupport hundred x
        | Some UNKNOWN \<Rightarrow> x)"

text \<open>\<^verbatim>\<open>publishModel\<close> sends the whole model; the drawings are left out.\<close>

definition publishModel :: "'a object list \<Rightarrow> 'a event list" where
  "publishModel model = [ModelSnapshot model]"

text \<open>
  What follows the three branches: the orientation and the header of the percept are
  set, and the verification services are asked.
\<close>

definition finish :: "('a::{zero,one,plus,minus,uminus,times,inverse,abs,ord}) config \<Rightarrow> 'a world \<Rightarrow> 'a pose_percept \<Rightarrow> 'a observation
    \<Rightarrow> 'a object \<Rightarrow> 'a object" where
  "finish cfg w percept obs x =
     (let x' = x\<lparr>obj_orientation := obs_orientation obs,
                 obj_header := (percept_header percept)\<lparr>frame_id := tracker_frame_id cfg\<rparr>\<rparr>
      in verification w x' (verificationServices w) x')"

text \<open>
  The second half of \<^verbatim>\<open>posePerceptCb\<close>, from the lock of the model on: association, the
  guard of fixed states, the three branches, orientation and header, verification and
  publication.
\<close>

definition fuse :: "('a::{zero,one,plus,minus,uminus,times,inverse,abs,ord}) config \<Rightarrow> 'a world \<Rightarrow> 'a object list \<Rightarrow> 'a pose_percept
    \<Rightarrow> 'a observation \<Rightarrow> failure + 'a object list \<times> 'a event list" where
  "fuse cfg w model percept obs =
     (let object = find_correspondence model percept obs in
      if (case object of None \<Rightarrow> False | Some i \<Rightarrow> obj_state (model ! i) < 0)
      then Inr (model, [])
      else
        (case create_or_update w model percept obs object of
           Inl e \<Rightarrow> Inl e
         | Inr (model1, i) \<Rightarrow>
             (let model2 = modify i (finish cfg w percept obs) model1
              in Inr (model2, ObjectUpdate (model2 ! i) # publishModel model2))))"

definition posePerceptCb :: "('a::{zero,one,plus,minus,uminus,times,inverse,abs,ord}) config \<Rightarrow> 'a world \<Rightarrow> 'a object list \<Rightarrow> 'a pose_percept
    \<Rightarrow> failure + 'a object list \<times> 'a event list" where
  "posePerceptCb cfg w model percept =
     (case project_percept cfg w percept of
        None \<Rightarrow> Inr (model, [])
      | Some obs \<Rightarrow> fuse cfg w model percept obs)"

section \<open>Image percepts\<close>

text \<open>
  The camera model of the frame of the percept: built from the calibration of the percept
  when the map has none for the frame, else the one of the map.
\<close>

definition get_camera_model ::
    "('a, 'ci, 'cm) image_geometry \<Rightarrow> (string \<rightharpoonup> 'cm) \<Rightarrow> ('a, 'ci) image_percept
      \<Rightarrow> (string \<rightharpoonup> 'cm) \<times> 'cm" where
  "get_camera_model g cameraModels percept =
     (case cameraModels (frame_id (image_header percept)) of
        None \<Rightarrow>
          (let cameraModel = fromCameraInfo g (camera_info percept)
           in (cameraModels(frame_id (image_header percept) \<mapsto> cameraModel), cameraModel))
      | Some cameraModel \<Rightarrow> (cameraModels, cameraModel))"

text \<open>The centre of the region, the pixel that is projected.\<close>

definition centre :: "('a::{zero,one,plus,minus,uminus,times,inverse,abs,ord}, 'ci) image_percept \<Rightarrow> 'a \<times> 'a" where
  "centre percept =
     (roi_x percept + roi_width percept / two, roi_y percept + roi_height percept / two)"

text \<open>
  The pose percept that \<^verbatim>\<open>imagePerceptCb\<close> makes from the ray of the centre of the region:
  the direction with the axes of the camera renamed, its quaternion, and the position at
  the default distance. The covariance of a new message is zero.
\<close>

definition image_to_pose_percept ::
    "('a::{zero,one,plus,minus,uminus,times,inverse,abs,ord}) config \<Rightarrow> 'a world \<Rightarrow> ('a, 'ci) image_percept \<Rightarrow> 'a vec3 \<Rightarrow> 'a pose_percept" where
  "image_to_pose_percept cfg w percept direction_cv =
     (case direction_cv of (cx, cy, cz) \<Rightarrow>
      (let direction_tf = (cz, - cx, - cy);
           direction_quaternion = percept_direction w direction_tf
       in \<lparr>percept_header = image_header percept,
           class_id = image_class_id percept,
           class_support = image_class_support percept,
           object_id = image_object_id percept,
           object_support = image_object_support percept,
           percept_pose =
             \<lparr>position = vtimes (normalized (fsqrt w) direction_tf) (default_distance cfg),
              orientation = direction_quaternion\<rparr>,
           percept_covariance = (\<lambda>i. 0)\<rparr>))"

definition imagePerceptCb ::
    "('a::{zero,one,plus,minus,uminus,times,inverse,abs,ord}, 'ci, 'cm) image_geometry \<Rightarrow> 'a config \<Rightarrow> 'a world
      \<Rightarrow> (string \<rightharpoonup> 'cm) \<times> 'a object list \<Rightarrow> ('a, 'ci) image_percept
      \<Rightarrow> (string \<rightharpoonup> 'cm) \<times> (failure + 'a object list \<times> 'a event list)" where
  "imagePerceptCb g cfg w tracker percept =
     (case tracker of (cameraModels, model) \<Rightarrow>
      (case get_camera_model g cameraModels percept of (cameraModels', cameraModel) \<Rightarrow>
         (cameraModels',
          posePerceptCb cfg w model
            (image_to_pose_percept cfg w percept
               (projectPixelTo3dRay g cameraModel (centre percept))))))"

text \<open>
  The map of camera models after a history of image percepts, each with the world and the
  model of its invocation, whatever they were.
\<close>

fun camera_models_after ::
    "('a::{zero,one,plus,minus,uminus,times,inverse,abs,ord}, 'ci, 'cm) image_geometry \<Rightarrow> 'a config \<Rightarrow> (string \<rightharpoonup> 'cm)
      \<Rightarrow> ('a world \<times> 'a object list \<times> ('a, 'ci) image_percept) list \<Rightarrow> (string \<rightharpoonup> 'cm)" where
  "camera_models_after g cfg cameraModels [] = cameraModels"
| "camera_models_after g cfg cameraModels ((w, model, percept) # history) =
     camera_models_after g cfg (fst (imagePerceptCb g cfg w (cameraModels, model) percept)) history"

section \<open>Commands and services\<close>



text \<open>\<open>None\<close> is the result \<^verbatim>\<open>false\<close>; otherwise the mapped pose.\<close>

definition mapToNextObstacle ::
    "('a::{zero,one,plus,minus,uminus,times,inverse,abs,ord}) config \<Rightarrow> 'a world \<Rightarrow> 'a pose \<Rightarrow> header \<Rightarrow> 'a pose option" where
  "mapToNextObstacle cfg w source h =
     (if \<not> distanceToObstacle_exists w then None
      else
        (case getDistanceToObstacle w h (position source) of
           None \<Rightarrow> None
         | Some response_distance \<Rightarrow>
             if 0 < response_distance then
               (let distance = std_max response_distance 0
                in Some \<lparr>position = vtimes (normalized (fsqrt w) (position source)) distance,
                         orientation = getRotation w None (orientation source)\<rparr>)
             else None))"

text \<open>
  \<open>None\<close> is the result \<^verbatim>\<open>false\<close>; otherwise the transformed pose, the header in the global
  frame and the transform. The covariance is not rotated (a TODO of the source).
\<close>

definition transformPose ::
    "('a::{zero,one,plus,minus,uminus,times,inverse,abs,ord}) config \<Rightarrow> 'a world \<Rightarrow> 'a pose \<Rightarrow> header \<Rightarrow> ('a pose \<times> header \<times> 'a transform) option" where
  "transformPose cfg w from h =
     (case lookupTransform w (tracker_frame_id cfg) (frame_id h) (stamp h) of
        None \<Rightarrow> None
      | Some t \<Rightarrow>
          Some (\<lparr>position = vadd (mat_vec (basis t) (position from)) (origin t),
                 orientation = getRotation w (Some t) (orientation from)\<rparr>,
                h\<lparr>frame_id := tracker_frame_id cfg\<rparr>, t))"

text \<open>A header without time stamp gets the time of the clock.\<close>

definition stamped :: "'a world \<Rightarrow> header \<Rightarrow> header" where
  "stamped w h = (if stamp h = 0 then h\<lparr>stamp := now w\<rparr> else h)"

record 'a add_request =
  request_object :: "'a object_msg"
  map_to_next_obstacle :: bool

definition addObjectCb :: "('a::{zero,one,plus,minus,uminus,times,inverse,abs,ord}) config \<Rightarrow> 'a world \<Rightarrow> 'a object list \<Rightarrow> 'a add_request
    \<Rightarrow> bool \<times> 'a object list \<times> 'a event list" where
  "addObjectCb cfg w model request =
     (let msg = request_object request;
          object = (if msg_object_id msg \<noteq> [] then getObject model (msg_object_id msg) else None);
          h = stamped w (msg_header msg)
      in
      case (if map_to_next_obstacle request then mapToNextObstacle cfg w (msg_pose msg) h
            else Some (msg_pose msg)) of
        None \<Rightarrow> (False, model, [])
      | Some p \<Rightarrow>
          (let covariance =
                 (if isZero (block3 (msg_covariance msg))
                  then (msg_covariance msg)(0 := 1, 7 := 1, 14 := 1)
                  else msg_covariance msg)
           in
           case transformPose cfg w p h of
             None \<Rightarrow> (False, model, [])
           | Some (p', h', t) \<Rightarrow>
               (let assign = (\<lambda>x. (setPose p' covariance (x\<lparr>obj_header := h'\<rparr>))
                                    \<lparr>obj_state := msg_state msg, obj_support := msg_support msg\<rparr>)
                in
                case object of
                  Some i \<Rightarrow>
                    (let model' = modify i assign model
                     in (True, model', ObjectUpdate (model' ! i) # publishModel model'))
                | None \<Rightarrow>
                    (let x = assign (new_Object w (msg_class_id msg) (msg_object_id msg));
                         model' = add_object model x
                     in (True, model', ObjectUpdate x # publishModel model')))))"

section \<open>Sequences of percepts and the candidates of the scan\<close>

text \<open>
  Pose percepts fed one after the other, each with the world of its invocation; the
  events are collected in order. The error of the store ends the sequence.
\<close>

fun feed :: "('a::{zero,one,plus,minus,uminus,times,inverse,abs,ord}) config \<Rightarrow> 'a object list \<Rightarrow> ('a world \<times> 'a pose_percept) list
    \<Rightarrow> failure + 'a object list \<times> 'a event list" where
  "feed cfg model [] = Inr (model, [])"
| "feed cfg model ((w, percept) # rest) =
     (case posePerceptCb cfg w model percept of
        Inl e \<Rightarrow> Inl e
      | Inr (model', events) \<Rightarrow>
          (case feed cfg model' rest of
             Inl e \<Rightarrow> Inl e
           | Inr (model'', events') \<Rightarrow> Inr (model'', events @ events')))"

text \<open>The object that a percept is associated to, if it gets as far as the association.\<close>

definition associated ::
    "('a::{zero,one,plus,minus,uminus,times,inverse,abs,ord}) config \<Rightarrow> 'a world \<Rightarrow> 'a object list \<Rightarrow> 'a pose_percept \<Rightarrow> nat option" where
  "associated cfg w model percept =
     (case project_percept cfg w percept of
        Some obs \<Rightarrow> find_correspondence model percept obs
      | None \<Rightarrow> None)"

definition associated_to_fixed ::
    "('a::{zero,one,plus,minus,uminus,times,inverse,abs,ord}) config \<Rightarrow> 'a world \<Rightarrow> 'a object list \<Rightarrow> 'a pose_percept \<Rightarrow> bool" where
  "associated_to_fixed cfg w model percept =
     (case associated cfg w model percept of
        Some i \<Rightarrow> obj_state (model ! i) < 0
      | None \<Rightarrow> False)"

text \<open>
  An object is a candidate of the scan when the test of the loop does not skip it; the
  candidates of a model are listed with their indices.
\<close>

definition candidate :: "string \<Rightarrow> 'a object \<Rightarrow> bool" where
  "candidate cid x = (\<not> (cid \<noteq> [] \<and> cid \<noteq> obj_class_id x))"

definition candidates :: "string \<Rightarrow> nat \<Rightarrow> 'a object list \<Rightarrow> (nat \<times> 'a object) list" where
  "candidates cid k model = filter (\<lambda>(i, x). candidate cid x) (enumerate k model)"

text \<open>
  The objects of the class of the hint, with their indices: the candidates as the
  association with a class hint is described, in words.
\<close>

definition same_class :: "string \<Rightarrow> nat \<Rightarrow> 'a object list \<Rightarrow> (nat \<times> 'a object) list" where
  "same_class cid k model = filter (\<lambda>(i, x). obj_class_id x = cid) (enumerate k model)"

text \<open>The selection of the nearest object inside the gate, over a list of candidates.\<close>

fun nearest :: "('a::{zero,one,plus,minus,uminus,times,inverse,abs,ord}) vec3 \<Rightarrow> 'a mat3 \<Rightarrow> (nat \<times> 'a object) list \<Rightarrow> nat option \<times> 'a
    \<Rightarrow> nat option \<times> 'a" where
  "nearest position' covariance' [] acc = acc"
| "nearest position' covariance' ((k, x) # rest) (object, min_distance) =
     (let distance = mahalanobis x position' covariance' in
      if distance < min_distance
      then nearest position' covariance' rest (Some k, distance)
      else nearest position' covariance' rest (object, min_distance))"


text \<open>The camera model of the first percept of a frame in a sequence of image percepts.\<close>

definition first_camera_model ::
    "('a, 'ci, 'cm) image_geometry \<Rightarrow> string \<Rightarrow> ('a, 'ci) image_percept list \<Rightarrow> 'cm option" where
  "first_camera_model g f percepts =
     map_option (\<lambda>q. fromCameraInfo g (camera_info q))
       (find (\<lambda>q. frame_id (image_header q) = f) percepts)"



text \<open>
  The object that a percept without object identifier creates, and the object after the
  fusion of a percept of positive support into it.
\<close>

definition created :: "('a::{zero,one,plus,minus,uminus,times,inverse,abs,ord}) config \<Rightarrow> 'a world \<Rightarrow> 'a pose_percept \<Rightarrow> 'a observation \<Rightarrow> 'a object" where
  "created cfg w percept obs =
     finish cfg w percept obs
       ((new_Object w (class_id percept) [])
          \<lparr>obj_position := obs_position obs, obj_covariance := obs_covariance obs,
           obj_support := obs_support obs\<rparr>)"

definition fused :: "('a::{zero,one,plus,minus,uminus,times,inverse,abs,ord}) config \<Rightarrow> 'a world \<Rightarrow> 'a pose_percept \<Rightarrow> 'a observation \<Rightarrow> 'a object
    \<Rightarrow> 'a object" where
  "fused cfg w percept obs x =
     finish cfg w percept obs
       (update (obs_position obs) (obs_covariance obs) (obs_support obs) x)"


text \<open>
  A scalar times a matrix, and the adjugate of a matrix: in the real numbers the inverse
  is the adjugate divided by the determinant.
\<close>

fun mscale :: "('a::{zero,one,plus,minus,uminus,times,inverse,abs,ord}) \<Rightarrow> 'a mat3 \<Rightarrow> 'a mat3" where
  "mscale k ((a, b, c), (d, e, f), (g, h, i)) =
     ((k * a, k * b, k * c), (k * d, k * e, k * f), (k * g, k * h, k * i))"

fun adjugate :: "('a::{zero,one,plus,minus,uminus,times,inverse,abs,ord}) mat3 \<Rightarrow> 'a mat3" where
  "adjugate ((a, b, c), (d, e, f), (g, h, i)) =
     ((e * i - f * h, h * c - i * b, b * f - c * e),
      (f * g - d * i, i * a - g * c, c * d - a * f),
      (d * h - e * g, g * b - h * a, a * e - b * d))"

section \<open>Exact arithmetic with NaN and infinities\<close>

text \<open>
  The real numbers with NaN and the two infinities, with the rules of IEEE arithmetic for
  them. A finite result is exact, and a zero is the positive zero.
\<close>

datatype ieee = NaN | Finite real | PInf | NInf

instantiation ieee :: "{zero,one,plus,minus,uminus,times,inverse,abs,ord}"
begin

definition zero_ieee :: ieee where
  "zero_ieee = Finite 0"

definition one_ieee :: ieee where
  "one_ieee = Finite 1"

fun plus_ieee :: "ieee \<Rightarrow> ieee \<Rightarrow> ieee" where
  "plus_ieee (Finite a) (Finite b) = Finite (a + b)"
| "plus_ieee NaN y = NaN"
| "plus_ieee x NaN = NaN"
| "plus_ieee PInf NInf = NaN"
| "plus_ieee NInf PInf = NaN"
| "plus_ieee PInf y = PInf"
| "plus_ieee x PInf = PInf"
| "plus_ieee NInf y = NInf"
| "plus_ieee x NInf = NInf"

fun uminus_ieee :: "ieee \<Rightarrow> ieee" where
  "uminus_ieee (Finite a) = Finite (- a)"
| "uminus_ieee NaN = NaN"
| "uminus_ieee PInf = NInf"
| "uminus_ieee NInf = PInf"

definition minus_ieee :: "ieee \<Rightarrow> ieee \<Rightarrow> ieee" where
  "minus_ieee x y = x + (- y)"

fun times_ieee :: "ieee \<Rightarrow> ieee \<Rightarrow> ieee" where
  "times_ieee (Finite a) (Finite b) = Finite (a * b)"
| "times_ieee NaN y = NaN"
| "times_ieee x NaN = NaN"
| "times_ieee PInf (Finite b) = (if b = 0 then NaN else if 0 < b then PInf else NInf)"
| "times_ieee NInf (Finite b) = (if b = 0 then NaN else if 0 < b then NInf else PInf)"
| "times_ieee (Finite a) PInf = (if a = 0 then NaN else if 0 < a then PInf else NInf)"
| "times_ieee (Finite a) NInf = (if a = 0 then NaN else if 0 < a then NInf else PInf)"
| "times_ieee PInf PInf = PInf"
| "times_ieee NInf NInf = PInf"
| "times_ieee PInf NInf = NInf"
| "times_ieee NInf PInf = NInf"

fun divide_ieee :: "ieee \<Rightarrow> ieee \<Rightarrow> ieee" where
  "divide_ieee (Finite a) (Finite b) =
     (if b = 0 then (if a = 0 then NaN else if 0 < a then PInf else NInf) else Finite (a / b))"
| "divide_ieee NaN y = NaN"
| "divide_ieee x NaN = NaN"
| "divide_ieee (Finite a) PInf = Finite 0"
| "divide_ieee (Finite a) NInf = Finite 0"
| "divide_ieee PInf (Finite b) = (if 0 \<le> b then PInf else NInf)"
| "divide_ieee NInf (Finite b) = (if 0 \<le> b then NInf else PInf)"
| "divide_ieee PInf PInf = NaN"
| "divide_ieee PInf NInf = NaN"
| "divide_ieee NInf PInf = NaN"
| "divide_ieee NInf NInf = NaN"

definition inverse_ieee :: "ieee \<Rightarrow> ieee" where
  "inverse_ieee x = divide (Finite 1) x"

fun abs_ieee :: "ieee \<Rightarrow> ieee" where
  "abs_ieee (Finite a) = Finite \<bar>a\<bar>"
| "abs_ieee NaN = NaN"
| "abs_ieee PInf = PInf"
| "abs_ieee NInf = PInf"

fun less_ieee :: "ieee \<Rightarrow> ieee \<Rightarrow> bool" where
  "less_ieee (Finite a) (Finite b) = (a < b)"
| "less_ieee NaN y = False"
| "less_ieee x NaN = False"
| "less_ieee x NInf = False"
| "less_ieee PInf y = False"
| "less_ieee NInf y = True"
| "less_ieee x PInf = True"

fun less_eq_ieee :: "ieee \<Rightarrow> ieee \<Rightarrow> bool" where
  "less_eq_ieee (Finite a) (Finite b) = (a \<le> b)"
| "less_eq_ieee NaN y = False"
| "less_eq_ieee x NaN = False"
| "less_eq_ieee NInf y = True"
| "less_eq_ieee x PInf = True"
| "less_eq_ieee x NInf = False"
| "less_eq_ieee PInf y = False"

instance ..

end


section \<open>Concrete inputs\<close>

definition zero3 :: "('a::zero) mat3" where
  "zero3 = ((0, 0, 0), (0, 0, 0), (0, 0, 0))"

definition identity3 :: "('a::{zero,one}) mat3" where
  "identity3 = ((1, 0, 0), (0, 1, 0), (0, 0, 1))"

text \<open>The quaternion of three angles, as \<^verbatim>\<open>setEuler\<close> of bullet computes it.\<close>

definition setEuler :: "real \<Rightarrow> real \<Rightarrow> real \<Rightarrow> real quat" where
  "setEuler yaw pitch roll =
     (cos (roll / 2) * sin (pitch / 2) * cos (yaw / 2) + sin (roll / 2) * cos (pitch / 2) * sin (yaw / 2),
      cos (roll / 2) * cos (pitch / 2) * sin (yaw / 2) - sin (roll / 2) * sin (pitch / 2) * cos (yaw / 2),
      sin (roll / 2) * cos (pitch / 2) * cos (yaw / 2) - cos (roll / 2) * sin (pitch / 2) * sin (yaw / 2),
      cos (roll / 2) * cos (pitch / 2) * cos (yaw / 2) + sin (roll / 2) * sin (pitch / 2) * sin (yaw / 2))"

text \<open>
  A tracker in the frame \<open>map\<close> without projection, and a world in which no service
  answers and no transform is known. The numbers are real numbers.
\<close>

definition example_config :: "real config" where
  "example_config =
     \<lparr>project_objects = False, tracker_frame_id = ''map'', default_distance = 1,
      distance_variance = 1, angle_variance = 1 / 10,
      min_height = - 9999 / 10, max_height = 9999 / 10\<rparr>"

definition example_world :: "real world" where
  "example_world =
     \<lparr>getDistanceToObstacle = (\<lambda>h p. None),
      distanceToObstacle_exists = False,
      lookupTransform = (\<lambda>target source t. None),
      uninitialised_transform = \<lparr>basis = identity3, origin = (0, 0, 0), rotation = (0, 0, 0, 1)\<rparr>,
      verificationServices = [],
      now = 1,
      fsqrt = sqrt,
      euler = setEuler,
      getRotation = (\<lambda>t q. q),
      auto_id = (\<lambda>cid. cid @ ''_0''),
      initial_state = 0,
      DISCARDED = - 2\<rparr>"

text \<open>A percept of class \<open>cup\<close> two metres ahead, in the frame \<open>map\<close>, with no covariance.\<close>

definition cup_percept :: "real pose_percept" where
  "cup_percept =
     \<lparr>percept_header = \<lparr>stamp = 1, frame_id = ''map''\<rparr>,
      class_id = ''cup'', class_support = 1, object_id = [], object_support = 0,
      percept_pose = \<lparr>position = (2, 0, 0), orientation = (0, 0, 0, 1)\<rparr>,
      percept_covariance = (\<lambda>i. 0)\<rparr>"

definition cup_observation :: "real observation" where
  "cup_observation =
     \<lparr>obs_position = (2, 0, 0),
      obs_covariance = ((1, 0, 0), (0, 2 / 5, 0), (0, 0, 2 / 5)),
      obs_support = 1,
      obs_orientation = (0, 0, 0, 1)\<rparr>"

text \<open>Two tracked objects at the place of the percept, one without class.\<close>

definition cup_object :: "real object" where
  "cup_object =
     \<lparr>obj_header = \<lparr>stamp = 1, frame_id = ''map''\<rparr>,
      obj_class_id = ''cup'', obj_object_id = ''cup_0'', obj_support = 1,
      obj_position = (2, 0, 0), obj_orientation = (0, 0, 0, 1),
      obj_covariance = ((1, 0, 0), (0, 2 / 5, 0), (0, 0, 2 / 5)),
      obj_state = 0\<rparr>"

definition classless_object :: "real object" where
  "classless_object = cup_object\<lparr>obj_class_id := [], obj_object_id := ''object_0''\<rparr>"

text \<open>A percept half a metre ahead.\<close>

definition near_percept :: "real pose_percept" where
  "near_percept = cup_percept\<lparr>percept_pose := \<lparr>position = (1 / 2, 0, 0), orientation = (0, 0, 0, 1)\<rparr>\<rparr>"

text \<open>The cup with a fixed state, and a percept that names the cup.\<close>

definition fixed_cup :: "real object" where
  "fixed_cup = cup_object\<lparr>obj_state := - 1\<rparr>"

definition named_percept :: "real pose_percept" where
  "named_percept = cup_percept\<lparr>object_id := ''cup_0'', object_support := 1\<rparr>"

text \<open>
  A world in which the ranging service is there and gives no distance, and a world in
  which tf knows the identity transform between any two frames.
\<close>

definition no_range_world :: "real world" where
  "no_range_world = example_world\<lparr>distanceToObstacle_exists := True\<rparr>"

definition identity_world :: "real world" where
  "identity_world =
     example_world\<lparr>lookupTransform :=
       (\<lambda>target source t. Some \<lparr>basis = identity3, origin = (0, 0, 0), rotation = (0, 0, 0, 1)\<rparr>)\<rparr>"

text \<open>A request to add a cup, with and without the projection to the next obstacle.\<close>

definition cup_request :: "real add_request" where
  "cup_request =
     \<lparr>request_object =
        \<lparr>msg_header = \<lparr>stamp = 0, frame_id = ''base_link''\<rparr>,
         msg_class_id = ''cup'', msg_object_id = [], msg_support = 1,
         msg_pose = \<lparr>position = (2, 0, 0), orientation = (0, 0, 0, 1)\<rparr>,
         msg_covariance = (\<lambda>i. 0), msg_state = 0\<rparr>,
      map_to_next_obstacle = False\<rparr>"

definition projected_cup_request :: "real add_request" where
  "projected_cup_request = cup_request\<lparr>map_to_next_obstacle := True\<rparr>"

definition added_cup :: "real object" where
  "added_cup =
     \<lparr>obj_header = \<lparr>stamp = 1, frame_id = ''map''\<rparr>,
      obj_class_id = ''cup'', obj_object_id = ''cup_0'', obj_support = 1,
      obj_position = (2, 0, 0), obj_orientation = (0, 0, 0, 1),
      obj_covariance = identity3, obj_state = 0\<rparr>"

text \<open>A cup two metres behind the percept, and the cup after a second, identical percept.\<close>

definition far_cup :: "real object" where
  "far_cup = cup_object\<lparr>obj_object_id := ''cup_1'', obj_position := (4, 0, 0)\<rparr>"

definition fused_cup :: "real object" where
  "fused_cup =
     cup_object\<lparr>obj_covariance := ((1 / 2, 0, 0), (0, 1 / 5, 0), (0, 0, 1 / 5)), obj_support := 2\<rparr>"

text \<open>
  Image percepts of one camera frame with different calibrations. Here the calibration
  is a number and the camera model keeps it; the ray of a pixel depends on it.
\<close>

definition cup_image :: "(real, nat) image_percept" where
  "cup_image =
     \<lparr>image_header = \<lparr>stamp = 1, frame_id = ''camera''\<rparr>,
      image_class_id = ''cup'', image_class_support = 1,
      image_object_id = [], image_object_support = 0,
      camera_info = 1, roi_x = 0, roi_y = 0, roi_width = 2, roi_height = 2\<rparr>"

definition example_geometry :: "(real, nat, nat) image_geometry" where
  "example_geometry =
     \<lparr>fromCameraInfo = (\<lambda>ci. ci),
      projectPixelTo3dRay = (\<lambda>cameraModel (u, v). (u / real cameraModel, v / real cameraModel, 1))\<rparr>"











section \<open>Lemmas\<close>

subsection \<open>Matrices of real numbers\<close>

lemma mat3_cases:
  obtains a b c d e f g h i where "m = ((a, b, c), (d, e, f), (g, h, i))"
  by (metis prod_cases3)


lemma inverse3_real: "inverse3 m = mscale (1 / det3 m) (adjugate (m :: real mat3))"
  by (cases m rule: mat3_cases) (simp add: Let_def)



lemma mscale_mscale: "mscale a (mscale b m) = mscale (a * b) (m :: real mat3)"
  by (cases m rule: mat3_cases) (simp add: algebra_simps)

lemma mscale_one: "mscale 1 m = (m :: real mat3)"
  by (cases m rule: mat3_cases) simp











lemma mmul_adjugate: "mmul m (adjugate m) = mscale (det3 m) (identity3 :: real mat3)"
  by (cases m rule: mat3_cases) (simp add: vec_mat_def identity3_def algebra_simps)

lemma adjugate_mmul: "mmul (adjugate m) m = mscale (det3 m) (identity3 :: real mat3)"
  by (cases m rule: mat3_cases) (simp add: vec_mat_def identity3_def algebra_simps)

lemma mmul_mscale: "mmul m (mscale k n) = mscale k (mmul m (n :: real mat3))"
  by (cases m rule: mat3_cases, cases n rule: mat3_cases) (simp add: vec_mat_def algebra_simps)

lemma mscale_mmul: "mmul (mscale k m) n = mscale k (mmul m (n :: real mat3))"
  by (cases m rule: mat3_cases, cases n rule: mat3_cases) (simp add: vec_mat_def algebra_simps)

lemma inverse3_is_inverse:
  assumes "det3 (s :: real mat3) \<noteq> 0"
  shows "mmul s (inverse3 s) = identity3 \<and> mmul (inverse3 s) s = identity3"
  using assms
  by (simp add: inverse3_real mmul_mscale mscale_mmul mmul_adjugate adjugate_mmul mscale_mscale mscale_one)

subsection \<open>Fusion in the real numbers\<close>






subsection \<open>The scan\<close>

lemma candidates_Cons:
  "candidates cid k (x # xs) =
     (if candidate cid x then (k, x) # candidates cid (Suc k) xs else candidates cid (Suc k) xs)"
  by (simp add: candidates_def)

lemma scan_nearest: "scan cid p c k model acc = nearest p c (candidates cid k model) acc"
proof (induction model arbitrary: k acc)
  case Nil
  then show ?case by (simp add: candidates_def)
next
  case (Cons x xs)
  obtain ob m where acc: "acc = (ob, m)" by (cases acc)
  show ?case
  proof (cases "candidate cid x")
    case True
    then have "\<not> (cid \<noteq> [] \<and> cid \<noteq> obj_class_id x)" by (simp add: candidate_def)
    then show ?thesis
      by (auto simp: acc candidates_Cons True Cons.IH Let_def)
  next
    case False
    then have "cid \<noteq> [] \<and> cid \<noteq> obj_class_id x" by (simp add: candidate_def)
    then show ?thesis
      by (simp add: acc candidates_Cons False Cons.IH)
  qed
qed

lemma nearest_spec:
  fixes m :: "'a::{zero,one,plus,minus,uminus,times,inverse,abs,ord}"
  assumes trans: "\<And>a b c :: 'a. a < b \<Longrightarrow> b < c \<Longrightarrow> a < c"
    and irrefl: "\<And>a :: 'a. \<not> a < a"
    and n: "nearest p c cs (ob, m) = (r, m')"
  shows "(\<forall>(k, x) \<in> set cs. \<not> mahalanobis x p c < m') \<and>
     ((r = ob \<and> m' = m) \<or> (\<exists>(k, x) \<in> set cs. r = Some k \<and> mahalanobis x p c = m' \<and> m' < m))"
  using n
proof (induction cs arbitrary: ob m)
  case Nil
  then show ?case by simp
next
  case (Cons a cs)
  obtain k x where a: "a = (k, x)" by (cases a)
  let ?d = "mahalanobis x p c"
  show ?case
  proof (cases "?d < m")
    case True
    with Cons.prems a have "nearest p c cs (Some k, ?d) = (r, m')" by (simp add: Let_def)
    from Cons.IH [OF this]
    have all: "\<forall>(k, x) \<in> set cs. \<not> mahalanobis x p c < m'"
      and sel: "(r = Some k \<and> m' = ?d) \<or>
        (\<exists>(j, y) \<in> set cs. r = Some j \<and> mahalanobis y p c = m' \<and> m' < ?d)"
      by auto
    from sel have "m' = ?d \<or> m' < ?d" by auto
    then have nd: "\<not> ?d < m'"
      using irrefl [of ?d] trans [of ?d m' ?d] by blast
    from \<open>m' = ?d \<or> m' < ?d\<close> have lt: "m' < m"
      using True trans [of m' ?d m] by blast
    from sel have "\<exists>(j, y) \<in> set (a # cs). r = Some j \<and> mahalanobis y p c = m' \<and> m' < m"
      using a lt by auto
    with all nd a show ?thesis by auto
  next
    case False
    with Cons.prems a have "nearest p c cs (ob, m) = (r, m')" by (simp add: Let_def)
    from Cons.IH [OF this]
    have all: "\<forall>(k, x) \<in> set cs. \<not> mahalanobis x p c < m'"
      and sel: "(r = ob \<and> m' = m) \<or>
        (\<exists>(j, y) \<in> set cs. r = Some j \<and> mahalanobis y p c = m' \<and> m' < m)"
      by auto
    from sel have "m' = m \<or> m' < m" by auto
    then have nd: "\<not> ?d < m'"
      using False trans [of ?d m' m] by blast
    with all sel a show ?thesis by auto
  qed
qed

lemma in_candidates:
  "(i, x) \<in> set (candidates cid 0 model) \<longleftrightarrow> i < length model \<and> x = model ! i \<and> candidate cid x"
  by (auto simp: candidates_def in_set_enumerate_eq)

text \<open>The order of the numbers with NaN and infinities is transitive and irreflexive.\<close>

lemma ieee_less_trans: "(a :: ieee) < b \<Longrightarrow> b < c \<Longrightarrow> a < c"
  by (cases a; cases b; cases c; simp)

lemma ieee_less_irrefl: "\<not> (a :: ieee) < a"
  by (cases a; simp)

subsection \<open>Evaluation of the concrete inputs, events\<close>

lemmas number_defs = two_def ten_def hundred_def dummy_precision_def std_max_def much_smaller_def

lemmas example_defs = example_config_def example_world_def cup_percept_def cup_observation_def
  cup_object_def classless_object_def near_percept_def identity3_def zero3_def setEuler_def
  fixed_cup_def named_percept_def no_range_world_def identity_world_def cup_request_def
  projected_cup_request_def added_cup_def cup_image_def example_geometry_def
  far_cup_def fused_cup_def


lemmas project_defs = project_percept_def percept_direction_def project_to_obstacle_def vlength_def
  default_covariance_def block3_def rotate_covariance_def to_global_frame_def
  percept_support_def vec_mat_def number_defs Let_def

lemma project_cup_percept:
  "project_percept example_config example_world cup_percept = Some cup_observation"
  by (simp add: example_defs project_defs)

lemma same_class_example:
  "same_class ''cup'' 0 [classless_object, cup_object] = [(1, cup_object)]"
  by (simp add: same_class_def example_defs enumerate_simps)




lemma length_modify: "length (modify i f model) = length model"
  by (simp add: modify_def)

lemma modify_append: "modify (length model) f (model @ [x]) = model @ [f x]"
  by (simp add: modify_def)





lemma fixed_single:
  "associated_to_fixed cfg w model percept \<Longrightarrow> posePerceptCb cfg w model percept = Inr (model, [])"
  by (auto simp: associated_to_fixed_def associated_def posePerceptCb_def fuse_def Let_def
      split: option.splits)

subsection \<open>Camera models\<close>

lemma find_append_cases:
  "find P (xs @ ys) = (case find P xs of None \<Rightarrow> find P ys | Some x \<Rightarrow> Some x)"
  by (induction xs) auto

lemma get_camera_model_map:
  "fst (get_camera_model g cameraModels percept) f =
     (if f = frame_id (image_header percept) \<and> cameraModels f = None
      then Some (fromCameraInfo g (camera_info percept)) else cameraModels f)"
  by (auto simp: get_camera_model_def Let_def split: option.splits)

lemma get_camera_model_used:
  "snd (get_camera_model g cameraModels percept) =
     (case cameraModels (frame_id (image_header percept)) of
        None \<Rightarrow> fromCameraInfo g (camera_info percept)
      | Some cameraModel \<Rightarrow> cameraModel)"
  by (simp add: get_camera_model_def Let_def split: option.splits)

lemma imagePerceptCb_parts:
  "imagePerceptCb g cfg w (cameraModels, model) percept =
     (fst (get_camera_model g cameraModels percept),
      posePerceptCb cfg w model
        (image_to_pose_percept cfg w percept
           (projectPixelTo3dRay g (snd (get_camera_model g cameraModels percept)) (centre percept))))"
  by (simp add: imagePerceptCb_def split: prod.splits)

lemma camera_models_after_map:
  "camera_models_after g cfg cameraModels history f =
     (case cameraModels f of
        Some cameraModel \<Rightarrow> Some cameraModel
      | None \<Rightarrow> first_camera_model g f (map (\<lambda>(w, model, percept). percept) history))"
proof (induction history arbitrary: cameraModels)
  case Nil
  then show ?case by (simp add: first_camera_model_def split: option.splits)
next
  case (Cons a history)
  obtain w model percept where a: "a = (w, model, percept)" by (cases a)
  define cameraModels' where "cameraModels' = fst (get_camera_model g cameraModels percept)"
  have map: "cameraModels' f =
      (if f = frame_id (image_header percept) \<and> cameraModels f = None
       then Some (fromCameraInfo g (camera_info percept)) else cameraModels f)"
    by (simp add: cameraModels'_def get_camera_model_map)
  have "camera_models_after g cfg cameraModels (a # history) f =
      camera_models_after g cfg cameraModels' history f"
    by (simp add: a imagePerceptCb_parts cameraModels'_def)
  also have "\<dots> = (case cameraModels' f of
        Some cameraModel \<Rightarrow> Some cameraModel
      | None \<Rightarrow> first_camera_model g f (map (\<lambda>(w, model, percept). percept) history))"
    by (rule Cons.IH)
  also have "\<dots> = (case cameraModels f of
        Some cameraModel \<Rightarrow> Some cameraModel
      | None \<Rightarrow> first_camera_model g f (map (\<lambda>(w, model, percept). percept) (a # history)))"
    by (simp add: map a first_camera_model_def split: option.splits)
  finally show ?case .
qed

subsection \<open>The adapter at a sideways ray, creation and association\<close>




lemma finish_keeps:
  "obj_position (finish cfg w percept obs x) = obj_position x \<and>
   obj_covariance (finish cfg w percept obs x) = obj_covariance x \<and>
   obj_class_id (finish cfg w percept obs x) = obj_class_id x"
proof -
  have v: "obj_position (verification w request its y) = obj_position y \<and>
      obj_covariance (verification w request its y) = obj_covariance y \<and>
      obj_class_id (verification w request its y) = obj_class_id y" for request its y
    by (induction its arbitrary: y)
       (auto simp: addSupport_def split: option.splits verify_response.splits)
  show ?thesis by (simp add: finish_def Let_def v)
qed

lemma fuse_created:
  assumes "object_id percept = []" and "find_correspondence model percept obs = None"
  shows "fuse cfg w model percept obs
           = Inr (model @ [created cfg w percept obs],
                  [ObjectUpdate (created cfg w percept obs),
                   ModelSnapshot (model @ [created cfg w percept obs])])"
  using assms
  by (simp add: fuse_def create_or_update_def add_def modify_append publishModel_def Let_def
      created_def)

lemma created_fields:
  "obj_position (created cfg w percept obs) = obs_position obs \<and>
   obj_covariance (created cfg w percept obs) = obs_covariance obs \<and>
   obj_class_id (created cfg w percept obs) = class_id percept"
  by (simp add: created_def finish_keeps new_Object_def)

lemma fuse_matched:
  assumes "find_correspondence model percept obs = Some i"
  shows "\<exists>model' events. fuse cfg w model percept obs = Inr (model', events) \<and>
           length model' = length model"
  using assms
  by (simp add: fuse_def create_or_update_def length_modify Let_def)

subsection \<open>Repeated percepts\<close>







subsection \<open>The tracker at the concrete inputs\<close>

lemma mahalanobis_far_cup:
  "mahalanobis far_cup (obs_position cup_observation) (obs_covariance cup_observation) = 2"
  by (simp add: mahalanobis_def vec_mat_def example_defs Let_def)

lemma mahalanobis_cup_object:
  "mahalanobis cup_object (obs_position cup_observation) (obs_covariance cup_observation) = 0"
  by (simp add: mahalanobis_def vec_mat_def example_defs Let_def)

lemma find_correspondence_far_and_cup:
  "find_correspondence [far_cup, cup_object] cup_percept cup_observation = Some 1"
  unfolding find_correspondence_def
  by (simp add: mahalanobis_far_cup mahalanobis_cup_object Let_def; simp add: example_defs)

lemma find_correspondence_far_cup:
  "find_correspondence [far_cup] cup_percept cup_observation = None"
  unfolding find_correspondence_def
  by (simp add: mahalanobis_far_cup Let_def; simp add: example_defs)

lemma created_cup:
  "created example_config example_world cup_percept cup_observation = cup_object"
  by (simp add: created_def finish_def new_Object_def example_defs Let_def)

lemma fused_cup_object:
  "fused example_config example_world cup_percept cup_observation cup_object = fused_cup"
  by (simp add: fused_def finish_def update_def vec_mat_def example_defs Let_def)

lemma fuse_far_and_cup:
  "fuse example_config example_world [far_cup, cup_object] cup_percept cup_observation
     = Inr ([far_cup, fused_cup], [ObjectUpdate fused_cup, ModelSnapshot [far_cup, fused_cup]])"
proof -
  have s: "obj_state cup_object = 0" "0 < obs_support cup_observation"
    by (simp_all add: example_defs)
  show ?thesis
    unfolding fuse_def find_correspondence_far_and_cup
    by (simp add: create_or_update_def modify_def publishModel_def s Let_def
        fused_cup_object [unfolded fused_def])
qed

lemma fuse_far_cup:
  "fuse example_config example_world [far_cup] cup_percept cup_observation
     = Inr ([far_cup, cup_object], [ObjectUpdate cup_object, ModelSnapshot [far_cup, cup_object]])"
proof -
  have i: "object_id cup_percept = []" by (simp add: example_defs)
  show ?thesis
    using fuse_created [OF i find_correspondence_far_cup, of example_config example_world]
    by (simp add: created_cup)
qed

lemma first_camera_model_example:
  "first_camera_model example_geometry ''camera'' [cup_image, cup_image\<lparr>camera_info := 2\<rparr>] = Some 1"
  by (simp add: first_camera_model_def example_defs)











section \<open>The claims\<close>

subsection \<open>The default covariance\<close>

text \<open>
  C5, as amended. When the 3x3 block of the covariance of a percept is the zero matrix,
  the default covariance has the configured distance variance on the first axis, the
  axis of the bearing, and on each of the two other axes the configured angle variance
  multiplied by the square of the distance or by 1, whichever is larger. The variance
  across the bearing is the square of the distance times the angle variance only from a
  distance of 1 on. The numbers are real numbers, for which \<open>std_max\<close> is the maximum.
\<close>

theorem default_covariance_of_zero_block:
  "default_covariance cfg distance zero3 =
     ((distance_variance cfg, 0, 0),
      (0, max (distance * distance) 1 * angle_variance cfg, 0),
      (0, 0, max (distance * distance) 1 * (angle_variance cfg :: real)))"
  by (simp add: default_covariance_def zero3_def number_defs max_def)

text \<open>
  C5 as it is stated fails for a percept half a metre ahead: the variance across the
  bearing is the angle variance itself, four times the square of the distance times the
  angle variance.
\<close>

theorem default_covariance_near_counterexample:
  "block3 (percept_covariance near_percept) = zero3 \<and>
   default_covariance example_config
       (vlength (fsqrt example_world) (position (percept_pose near_percept)))
       (block3 (percept_covariance near_percept))
     \<noteq> ((distance_variance example_config, 0, 0),
         (0, vlength (fsqrt example_world) (position (percept_pose near_percept))
               * vlength (fsqrt example_world) (position (percept_pose near_percept))
               * angle_variance example_config, 0),
         (0, 0, vlength (fsqrt example_world) (position (percept_pose near_percept))
                  * vlength (fsqrt example_world) (position (percept_pose near_percept))
                  * angle_variance example_config))"
  by (simp add: example_defs project_defs real_sqrt_divide)

subsection \<open>The class hint\<close>

text \<open>
  C2, as amended. During the association with a class hint that is not empty, the scan
  goes over exactly the tracked objects whose class is the class of the hint: its result
  is the selection of the nearest object inside the gate among these. An object of any
  other class is skipped, and so is an object without class.
\<close>

theorem class_hint_candidates:
  "cid \<noteq> [] \<Longrightarrow> scan cid p c k model acc = nearest p c (same_class cid k model) acc"
proof -
  assume "cid \<noteq> []"
  then have "candidates cid k model = same_class cid k model"
    by (auto simp: candidates_def same_class_def candidate_def intro!: filter_cong)
  then show ?thesis by (simp add: scan_nearest)
qed

theorem class_hint_candidates_witness:
  "''cup'' \<noteq> [] \<and>
   scan ''cup'' (2, 0, 0) identity3 0 [classless_object, cup_object] (None, 1)
     = nearest (2, 0, 0) identity3 [(1, cup_object)] (None, 1)"
  using class_hint_candidates [of "''cup''" "(2, 0, 0)" identity3 0 "[classless_object, cup_object]" "(None, 1)"]
  by (simp add: same_class_example)

text \<open>
  C2 as it is stated fails for an object without class at the very place of a percept of
  class \<open>cup\<close>: its squared distance is 0, inside the gate, and the association finds
  nothing.
\<close>

theorem classless_object_counterexample:
  "class_id cup_percept \<noteq> [] \<and> obj_class_id classless_object = [] \<and>
   mahalanobis classless_object (obs_position cup_observation) (obs_covariance cup_observation) = 0 \<and>
   find_correspondence [classless_object] cup_percept cup_observation = None"
  by (simp add: example_defs find_correspondence_def mahalanobis_def vec_mat_def Let_def)

subsection \<open>Broadcast of the model\<close>




subsection \<open>Requests that fail\<close>

text \<open>
  C8. When a create-or-update request asks for the projection to the next obstacle and
  the projection fails, or when the transform of its pose into the global frame fails,
  the result is \<^verbatim>\<open>false\<close>, the store is the store as it was and nothing is published.
\<close>

theorem failed_request_leaves_store:
  assumes "(map_to_next_obstacle request \<and>
            mapToNextObstacle cfg w (msg_pose (request_object request))
               (stamped w (msg_header (request_object request))) = None)
           \<or> lookupTransform w (tracker_frame_id cfg)
                (frame_id (stamped w (msg_header (request_object request))))
                (stamp (stamped w (msg_header (request_object request)))) = None"
  shows "addObjectCb cfg w model request = (False, model, [])"
  using assms
  by (auto simp: addObjectCb_def transformPose_def Let_def split: option.splits if_splits)

theorem failed_request_leaves_store_witness:
  "map_to_next_obstacle projected_cup_request \<and>
   mapToNextObstacle example_config no_range_world (msg_pose (request_object projected_cup_request))
     (stamped no_range_world (msg_header (request_object projected_cup_request))) = None \<and>
   addObjectCb example_config no_range_world [cup_object] projected_cup_request
     = (False, [cup_object], []) \<and>
   lookupTransform example_world (tracker_frame_id example_config)
     (frame_id (stamped example_world (msg_header (request_object cup_request))))
     (stamp (stamped example_world (msg_header (request_object cup_request)))) = None \<and>
   addObjectCb example_config example_world [cup_object] cup_request
     = (False, [cup_object], [])"
proof -
  have a: "mapToNextObstacle example_config no_range_world
      (msg_pose (request_object projected_cup_request))
      (stamped no_range_world (msg_header (request_object projected_cup_request))) = None"
    by (simp add: mapToNextObstacle_def example_defs)
  have c: "lookupTransform example_world (tracker_frame_id example_config)
      (frame_id (stamped example_world (msg_header (request_object cup_request))))
      (stamp (stamped example_world (msg_header (request_object cup_request)))) = None"
    by (simp add: example_defs)
  have p: "map_to_next_obstacle projected_cup_request"
    by (simp add: example_defs)
  show ?thesis
    using failed_request_leaves_store [of projected_cup_request example_config no_range_world
        "[cup_object]"]
      failed_request_leaves_store [of cup_request example_config example_world "[cup_object]"]
      a c p
    by simp
qed

subsection \<open>Objects with a fixed state\<close>

text \<open>
  C4. A pose percept that is associated to an object with a fixed state, a negative one,
  has no effect: the model stays as it is, with the position, covariance, support, state,
  orientation and header of every object and with no new object, and nothing is
  published. So it is after any number of such percepts.
\<close>

theorem fixed_object_unchanged:
  "\<forall>(w, percept) \<in> set inputs. associated_to_fixed cfg w model percept
     \<Longrightarrow> feed cfg model inputs = Inr (model, [])"
proof (induction inputs)
  case Nil
  then show ?case by simp
next
  case (Cons a inputs)
  obtain w percept where a: "a = (w, percept)" by (cases a)
  from Cons.prems a have "posePerceptCb cfg w model percept = Inr (model, [])"
    by (simp add: fixed_single)
  moreover from Cons have "feed cfg model inputs = Inr (model, [])" by simp
  ultimately show ?case by (simp add: a)
qed

theorem fixed_object_unchanged_witness:
  "associated_to_fixed example_config example_world [fixed_cup] cup_percept \<and>
   feed example_config [fixed_cup] [(example_world, cup_percept), (example_world, cup_percept)]
     = Inr ([fixed_cup], [])"
proof -
  have a: "associated_to_fixed example_config example_world [fixed_cup] cup_percept"
    unfolding associated_to_fixed_def associated_def project_cup_percept
    by (simp add: find_correspondence_def mahalanobis_def vec_mat_def example_defs Let_def)
  show ?thesis
    using fixed_object_unchanged [of "[(example_world, cup_percept), (example_world, cup_percept)]"
        example_config "[fixed_cup]"] a
    by simp
qed

subsection \<open>The division of the adapter\<close>



subsection \<open>Percepts that name an object\<close>

text \<open>
  C3. The claim holds of the scan, which is skipped; the lookup is missing. For the model
  with the cup \<open>cup_0\<close> and a percept that names \<open>cup_0\<close>, the lookup by identifier
  finds the cup, the association of \<^verbatim>\<open>posePerceptCb\<close> finds nothing, and the percept ends
  in the creation of an object whose identifier is there already.
\<close>

theorem named_percept_is_not_looked_up:
  "getObject [cup_object] (object_id named_percept) = Some 0 \<and>
   find_correspondence [cup_object] named_percept cup_observation = None \<and>
   posePerceptCb example_config example_world [cup_object] named_percept = Inl AlreadyExists"
proof -
  have "project_percept example_config example_world named_percept = Some cup_observation"
    by (simp add: example_defs project_defs)
  then show ?thesis
    unfolding posePerceptCb_def
    by (simp add: fuse_def find_correspondence_def create_or_update_def add_def example_defs)
qed

subsection \<open>The camera models\<close>

text \<open>
  C10. After any sequence of image percepts, \<^verbatim>\<open>imagePerceptCb\<close> projects the pixel of an
  image percept with one camera model: the one that the map held for the frame of the
  percept before the sequence, if any, and else the one built from the calibration of
  the first percept with this frame, in the sequence or the percept itself. The pose
  percept that goes to \<^verbatim>\<open>posePerceptCb\<close> is made of the ray of this camera model, so the
  calibration of a later percept of the frame is not read.
\<close>

theorem camera_model_first_write_wins:
  "\<exists>cameraModel.
     (case cameraModels (frame_id (image_header percept)) of
        Some c \<Rightarrow> Some c
      | None \<Rightarrow> first_camera_model g (frame_id (image_header percept))
                  (map (\<lambda>(w, model, percept). percept) history @ [percept]))
       = Some cameraModel \<and>
     snd (imagePerceptCb g cfg w (camera_models_after g cfg cameraModels history, model) percept)
       = posePerceptCb cfg w model
           (image_to_pose_percept cfg w percept
              (projectPixelTo3dRay g cameraModel (centre percept)))"
proof -
  let ?f = "frame_id (image_header percept)"
  let ?ps = "map (\<lambda>(w, model, percept). percept) history"
  let ?cms = "camera_models_after g cfg cameraModels history"
  have used: "snd (get_camera_model g ?cms percept) =
      (case ?cms ?f of None \<Rightarrow> fromCameraInfo g (camera_info percept) | Some c \<Rightarrow> c)"
    by (rule get_camera_model_used)
  have first: "first_camera_model g ?f (?ps @ [percept]) =
      (case first_camera_model g ?f ?ps of
         Some c \<Rightarrow> Some c
       | None \<Rightarrow> Some (fromCameraInfo g (camera_info percept)))"
    by (simp add: first_camera_model_def find_append_cases split: option.splits)
  have "(case cameraModels ?f of Some c \<Rightarrow> Some c
         | None \<Rightarrow> first_camera_model g ?f (?ps @ [percept]))
       = Some (snd (get_camera_model g ?cms percept))"
    unfolding used first camera_models_after_map [of g cfg cameraModels history ?f]
    by (simp split: option.splits)
  then show ?thesis
    by (intro exI [of _ "snd (get_camera_model g ?cms percept)"]) (simp add: imagePerceptCb_parts)
qed

theorem camera_model_first_write_wins_witness:
  "first_camera_model example_geometry ''camera'' [cup_image, cup_image\<lparr>camera_info := 2\<rparr>]
     = Some (fromCameraInfo example_geometry (camera_info cup_image)) \<and>
   snd (imagePerceptCb example_geometry example_config example_world
          (camera_models_after example_geometry example_config Map.empty
             [(example_world, [], cup_image)], [])
          (cup_image\<lparr>camera_info := 2\<rparr>))
     = posePerceptCb example_config example_world []
         (image_to_pose_percept example_config example_world (cup_image\<lparr>camera_info := 2\<rparr>)
            (projectPixelTo3dRay example_geometry
               (fromCameraInfo example_geometry (camera_info cup_image))
               (centre (cup_image\<lparr>camera_info := 2\<rparr>)))) \<and>
   projectPixelTo3dRay example_geometry (fromCameraInfo example_geometry (camera_info cup_image))
     (centre (cup_image\<lparr>camera_info := 2\<rparr>)) = (1, 1, 1) \<and>
   projectPixelTo3dRay example_geometry
     (fromCameraInfo example_geometry (camera_info (cup_image\<lparr>camera_info := 2\<rparr>)))
     (centre (cup_image\<lparr>camera_info := 2\<rparr>)) = (1 / 2, 1 / 2, 1)"
proof -
  have f: "frame_id (image_header (cup_image\<lparr>camera_info := 2\<rparr>)) = ''camera''"
    by (simp add: example_defs)
  have c: "fromCameraInfo example_geometry (camera_info cup_image) = 1"
    by (simp add: example_defs)
  have r: "projectPixelTo3dRay example_geometry 1 (centre (cup_image\<lparr>camera_info := 2\<rparr>)) = (1, 1, 1)"
    "projectPixelTo3dRay example_geometry
       (fromCameraInfo example_geometry (camera_info (cup_image\<lparr>camera_info := 2\<rparr>)))
       (centre (cup_image\<lparr>camera_info := 2\<rparr>)) = (1 / 2, 1 / 2, 1)"
    by (simp_all add: example_defs centre_def number_defs)
  from camera_model_first_write_wins [where g = example_geometry and cfg = example_config
      and w = example_world and cameraModels = Map.empty
      and history = "[(example_world, [], cup_image)]"
      and percept = "cup_image\<lparr>camera_info := 2\<rparr>" and model = "[]"]
  obtain cameraModel where
    1: "first_camera_model example_geometry ''camera'' [cup_image, cup_image\<lparr>camera_info := 2\<rparr>]
          = Some cameraModel"
    and 2: "snd (imagePerceptCb example_geometry example_config example_world
          (camera_models_after example_geometry example_config Map.empty
             [(example_world, [], cup_image)], [])
          (cup_image\<lparr>camera_info := 2\<rparr>))
     = posePerceptCb example_config example_world []
         (image_to_pose_percept example_config example_world (cup_image\<lparr>camera_info := 2\<rparr>)
            (projectPixelTo3dRay example_geometry cameraModel
               (centre (cup_image\<lparr>camera_info := 2\<rparr>))))"
    unfolding f by auto
  from 1 have "cameraModel = 1" by (simp add: first_camera_model_example)
  with 1 2 r show ?thesis by (simp add: c)
qed

subsection \<open>The gate of the association\<close>

text \<open>
  C1. For an observation without object identifier, the squared distance that the
  association computes for an object is the difference of the positions, multiplied from
  both sides with the inverse of the sum of the two covariances as \<open>inverse3\<close> computes
  it, which in the real numbers is the inverse of every matrix with a determinant other
  than zero. Whatever the numbers are, if only their order is transitive and
  irreflexive, the association ends in one of two ways. Either it selects a candidate
  whose distance is strictly below 1 and such that no candidate has a smaller one, and
  then no object is created; or no candidate has a distance strictly below 1, and then a
  new object with the position, the covariance and the class of the observation is
  appended to the model and published.
\<close>

theorem association_gate:
  fixes model :: "('a::{zero,one,plus,minus,uminus,times,inverse,abs,ord}) object list"
    and s :: "real mat3"
  assumes "object_id percept = []"
    and trans: "\<And>a b c :: 'a. a < b \<Longrightarrow> b < c \<Longrightarrow> a < c"
    and irrefl: "\<And>a :: 'a. \<not> a < a"
  shows "(\<forall>x. mahalanobis x (obs_position obs) (obs_covariance obs)
            = dot (vec_mat (vsub (obj_position x) (obs_position obs))
                     (inverse3 (madd (obj_covariance x) (obs_covariance obs))))
                (vsub (obj_position x) (obs_position obs))) \<and>
     (det3 s \<noteq> 0 \<longrightarrow> mmul s (inverse3 s) = identity3 \<and> mmul (inverse3 s) s = identity3) \<and>
     (case find_correspondence model percept obs of
        Some i \<Rightarrow>
          i < length model \<and> candidate (class_id percept) (model ! i) \<and>
          mahalanobis (model ! i) (obs_position obs) (obs_covariance obs) < 1 \<and>
          (\<forall>j<length model. candidate (class_id percept) (model ! j) \<longrightarrow>
             \<not> mahalanobis (model ! j) (obs_position obs) (obs_covariance obs)
                 < mahalanobis (model ! i) (obs_position obs) (obs_covariance obs)) \<and>
          (\<exists>model' events. fuse cfg w model percept obs = Inr (model', events) \<and>
             length model' = length model)
      | None \<Rightarrow>
          (\<forall>j<length model. candidate (class_id percept) (model ! j) \<longrightarrow>
             \<not> mahalanobis (model ! j) (obs_position obs) (obs_covariance obs) < 1) \<and>
          (\<exists>x. fuse cfg w model percept obs
                 = Inr (model @ [x], [ObjectUpdate x, ModelSnapshot (model @ [x])]) \<and>
               obj_position x = obs_position obs \<and> obj_covariance x = obs_covariance obs \<and>
               obj_class_id x = class_id percept))"
proof -
  let ?p = "obs_position obs" and ?c = "obs_covariance obs"
  let ?cs = "candidates (class_id percept) 0 model"
  obtain object m where n: "nearest ?p ?c ?cs (None, 1) = (object, m)"
    by (cases "nearest ?p ?c ?cs (None, 1)")
  then have f: "find_correspondence model percept obs = object"
    by (simp add: find_correspondence_def assms(1) scan_nearest)
  have spec: "(\<forall>(k, x) \<in> set ?cs. \<not> mahalanobis x ?p ?c < m) \<and>
     ((object = None \<and> m = 1) \<or>
      (\<exists>(k, x) \<in> set ?cs. object = Some k \<and> mahalanobis x ?p ?c = m \<and> m < 1))"
  proof (rule nearest_spec)
    show "\<And>a b c :: 'a. a < b \<Longrightarrow> b < c \<Longrightarrow> a < c" by (rule trans)
    show "\<And>a :: 'a. \<not> a < a" by (rule irrefl)
    show "nearest ?p ?c ?cs (None, 1) = (object, m)" by (rule n)
  qed
  then have all: "\<And>k x. (k, x) \<in> set ?cs \<Longrightarrow> \<not> mahalanobis x ?p ?c < m"
    and sel: "(object = None \<and> m = 1) \<or>
              (\<exists>(k, x) \<in> set ?cs. object = Some k \<and> mahalanobis x ?p ?c = m \<and> m < 1)"
    by auto
  have all': "\<And>j. j < length model \<Longrightarrow> candidate (class_id percept) (model ! j) \<Longrightarrow>
       \<not> mahalanobis (model ! j) ?p ?c < m"
    using all by (simp add: in_candidates)
  have formula: "\<forall>x. mahalanobis x ?p ?c
      = dot (vec_mat (vsub (obj_position x) ?p) (inverse3 (madd (obj_covariance x) ?c)))
          (vsub (obj_position x) ?p)"
    by (simp add: mahalanobis_def Let_def)
  have inv: "det3 s \<noteq> 0 \<longrightarrow> mmul s (inverse3 s) = identity3 \<and> mmul (inverse3 s) s = identity3"
    using inverse3_is_inverse by blast
  have sel_case: "(case object of
        Some i \<Rightarrow>
          i < length model \<and> candidate (class_id percept) (model ! i) \<and>
          mahalanobis (model ! i) ?p ?c < 1 \<and>
          (\<forall>j<length model. candidate (class_id percept) (model ! j) \<longrightarrow>
             \<not> mahalanobis (model ! j) ?p ?c < mahalanobis (model ! i) ?p ?c) \<and>
          (\<exists>model' events. fuse cfg w model percept obs = Inr (model', events) \<and>
             length model' = length model)
      | None \<Rightarrow>
          (\<forall>j<length model. candidate (class_id percept) (model ! j) \<longrightarrow>
             \<not> mahalanobis (model ! j) ?p ?c < 1) \<and>
          (\<exists>x. fuse cfg w model percept obs
                 = Inr (model @ [x], [ObjectUpdate x, ModelSnapshot (model @ [x])]) \<and>
               obj_position x = ?p \<and> obj_covariance x = ?c \<and>
               obj_class_id x = class_id percept))"
  proof (cases object)
    case None
    with sel have "m = 1" by auto
    with all' have a: "\<forall>j<length model. candidate (class_id percept) (model ! j) \<longrightarrow>
         \<not> mahalanobis (model ! j) ?p ?c < 1" by blast
    from f None have "find_correspondence model percept obs = None" by simp
    from fuse_created [OF assms(1) this, of cfg w] created_fields [of cfg w percept obs]
    have "\<exists>x. fuse cfg w model percept obs
                 = Inr (model @ [x], [ObjectUpdate x, ModelSnapshot (model @ [x])]) \<and>
               obj_position x = ?p \<and> obj_covariance x = ?c \<and>
               obj_class_id x = class_id percept"
      by blast
    with a None show ?thesis by simp
  next
    case (Some i)
    with sel have i: "i < length model" "candidate (class_id percept) (model ! i)"
      and d: "mahalanobis (model ! i) ?p ?c = m" "m < 1"
      by (auto simp: in_candidates)
    from f Some have "find_correspondence model percept obs = Some i" by simp
    from fuse_matched [OF this, of cfg w]
    have "\<exists>model' events. fuse cfg w model percept obs = Inr (model', events) \<and>
        length model' = length model" .
    with i d all' Some show ?thesis by simp
  qed
  show ?thesis
    unfolding f using formula inv sel_case by blast
qed

theorem association_gate_witness:
  "object_id cup_percept = [] \<and>
   mahalanobis far_cup (obs_position cup_observation) (obs_covariance cup_observation) = 2 \<and>
   mahalanobis cup_object (obs_position cup_observation) (obs_covariance cup_observation) = 0 \<and>
   find_correspondence [far_cup, cup_object] cup_percept cup_observation = Some 1 \<and>
   fuse example_config example_world [far_cup, cup_object] cup_percept cup_observation
     = Inr ([far_cup, fused_cup], [ObjectUpdate fused_cup, ModelSnapshot [far_cup, fused_cup]]) \<and>
   find_correspondence [far_cup] cup_percept cup_observation = None \<and>
   fuse example_config example_world [far_cup] cup_percept cup_observation
     = Inr ([far_cup, cup_object], [ObjectUpdate cup_object, ModelSnapshot [far_cup, cup_object]]) \<and>
   det3 (obs_covariance cup_observation) \<noteq> 0 \<and>
   mmul (obs_covariance cup_observation) (inverse3 (obs_covariance cup_observation)) = identity3"
proof -
  have a: "object_id cup_percept = []"
    by (simp add: example_defs)
  have d: "det3 (obs_covariance cup_observation) \<noteq> 0"
    by (simp add: example_defs)
  from association_gate [where percept = cup_percept and model = "[far_cup, cup_object]"
      and obs = cup_observation and cfg = example_config and w = example_world
      and s = "obs_covariance cup_observation", OF a] d
  have m: "mmul (obs_covariance cup_observation) (inverse3 (obs_covariance cup_observation))
      = identity3"
    by simp
  show ?thesis
    using a d m mahalanobis_far_cup mahalanobis_cup_object find_correspondence_far_and_cup
      find_correspondence_far_cup fuse_far_and_cup fuse_far_cup
    by simp
qed

subsection \<open>Repeated observations\<close>




end
